theory Spec2Isabelle
  imports Complex_Main "HOL-Library.Sublist"
begin

section \<open>Python strings\<close>

text \<open>
  A Python \<^verbatim>\<open>str\<close> is modelled as a \<^typ>\<open>string\<close>: a list of 8-bit characters, each
  read as the code point of the same number, so the model covers the strings over the
  code points 0 to 255 and \<^const>\<open>length\<close> counts what Python's \<^verbatim>\<open>len\<close> counts.
  Every literal of the program is ASCII.
\<close>

text \<open>
  \<^verbatim>\<open>str.lower()\<close>, character by character. Below code point 256 the cased upper
  characters are A to Z (65 to 90) and the Latin-1 capitals 192 to 222 without the
  multiplication sign 215; each lowers to the code point 32 above it, which is the same
  character with bit 5 set.
\<close>

definition is_upper :: "char \<Rightarrow> bool" where
  "is_upper c =
     (let n = (of_char c :: nat)
      in (65 \<le> n \<and> n \<le> 90) \<or> (192 \<le> n \<and> n \<le> 222 \<and> n \<noteq> 215))"

definition char_lower :: "char \<Rightarrow> char" where
  "char_lower c =
     (if is_upper c
      then Char (digit0 c) (digit1 c) (digit2 c) (digit3 c) (digit4 c) True (digit6 c) (digit7 c)
      else c)"

definition lower :: "string \<Rightarrow> string" where
  "lower s = map char_lower s"

text \<open>
  The operator \<^verbatim>\<open>p in s\<close> on strings: \<open>p\<close> occurs in \<open>s\<close> as a contiguous substring;
  the empty string occurs in every string.
\<close>

fun str_in :: "string \<Rightarrow> string \<Rightarrow> bool" where
  "str_in p [] = (p = [])"
| "str_in p (c # cs) = (prefix p (c # cs) \<or> str_in p cs)"

text \<open>
  \<^verbatim>\<open>str.split()\<close> without arguments: the maximal runs of non-whitespace characters,
  in order; no empty string is ever produced. The whitespace characters below code point
  256 are 9 to 13, 28 to 32, 133 and 160.
\<close>

definition isspace :: "char \<Rightarrow> bool" where
  "isspace c =
     (let n = (of_char c :: nat)
      in (9 \<le> n \<and> n \<le> 13) \<or> (28 \<le> n \<and> n \<le> 32) \<or> n = 133 \<or> n = 160)"

fun split_from :: "string \<Rightarrow> string \<Rightarrow> string list" where
  "split_from cur [] = (if cur = [] then [] else [cur])"
| "split_from cur (c # cs) =
     (if isspace c
      then (if cur = [] then split_from [] cs else cur # split_from [] cs)
      else split_from (cur @ [c]) cs)"

definition split :: "string \<Rightarrow> string list" where
  "split s = split_from [] s"

section \<open>Dictionaries and errors\<close>

datatype error = KeyError string

text \<open>\<^verbatim>\<open>d[k]\<close> raises \<^verbatim>\<open>KeyError\<close> on a missing key; \<^verbatim>\<open>d.get(k, dflt)\<close> returns
  \<open>dflt\<close> there. A dictionary entry that may be absent is an \<^typ>\<open>'a option\<close>.\<close>

definition getitem :: "(string \<rightharpoonup> 'a) \<Rightarrow> string \<Rightarrow> error + 'a" where
  "getitem d k = (case d k of None \<Rightarrow> Inl (KeyError k) | Some v \<Rightarrow> Inr v)"

definition dict_get :: "'a option \<Rightarrow> 'a \<Rightarrow> 'a" where
  "dict_get v dflt = (case v of None \<Rightarrow> dflt | Some x \<Rightarrow> x)"

section \<open>The knowledge base (data/knowledge-base module)\<close>

record MockDocument =
  page_content :: string
  metadata :: "(string \<times> string) list"

definition MockDocument_init :: "string \<Rightarrow> string \<Rightarrow> string \<Rightarrow> MockDocument" where
  "MockDocument_init content source topic =
     \<lparr>page_content = content, metadata = [(''source'', source), (''topic'', topic)]\<rparr>"

text \<open>One value of \<^verbatim>\<open>KNOWLEDGE_BASE\<close>: the dictionary with the keys
  \<^verbatim>\<open>answer\<close>, \<^verbatim>\<open>sources\<close> and \<^verbatim>\<open>retrieved_docs\<close>.\<close>

record topic =
  answer :: string
  sources :: "string list"
  retrieved_docs :: "MockDocument list"

definition kb_what_is_moems :: topic where
  "kb_what_is_moems =
     \<lparr>answer = ''MOEMS stands for Mathematical Olympiads for Elementary and Middle Schools. It is a mathematics competition designed for students in grades 4-8, providing an engaging way for students to develop problem-solving skills through challenging mathematical problems.'',
      sources = [''moems_overview'', ''moems_introduction''],
      retrieved_docs =
        [MockDocument_init
           ''MOEMS stands for Mathematical Olympiads for Elementary and Middle Schools. It is a mathematics competition designed for students in grades 4-8.''
           ''moems_overview''
           ''introduction'',
         MockDocument_init
           ''MOEMS provides an engaging way for students to develop problem-solving skills through challenging mathematical problems.''
           ''moems_introduction''
           ''introduction'']\<rparr>"

definition kb_structure :: topic where
  "kb_structure =
     \<lparr>answer = ''Each MOEMS contest consists of exactly 5 problems. Students have 30 minutes total to complete all 5 problems. Calculators are strictly prohibited during the contest, emphasizing mental math and problem-solving skills.'',
      sources = [''moems_structure'', ''moems_rules''],
      retrieved_docs =
        [MockDocument_init
           ''Each MOEMS contest consists of exactly 5 problems. Students have 30 minutes total to complete all 5 problems.''
           ''moems_structure''
           ''format'',
         MockDocument_init
           ''Calculators are strictly prohibited during MOEMS contests, emphasizing mental math and problem-solving skills.''
           ''moems_rules''
           ''equipment'']\<rparr>"

definition kb_participate :: topic where
  "kb_participate =
     \<lparr>answer = ''Students in grades 4 through 8 can participate in MOEMS. This includes both elementary school students (grades 4-5) and middle school students (grades 6-8). The competition is appropriate for students aged approximately 9-14 years old.'',
      sources = [''moems_eligibility''],
      retrieved_docs =
        [MockDocument_init
           ''Students in grades 4 through 8 can participate in MOEMS. This includes both elementary and middle school students (grades 4-5 for elementary, 6-8 for middle school). Appropriate for ages 9-14.''
           ''moems_eligibility''
           ''participation'']\<rparr>"

definition kb_scored :: topic where
  "kb_scored =
     \<lparr>answer = ''Each problem in a MOEMS contest is worth 1 point. The maximum score for a single contest is 5 points (one for each problem). Teams compete based on cumulative scores across multiple contests throughout the year.'',
      sources = [''moems_scoring''],
      retrieved_docs =
        [MockDocument_init
           ''Each problem is worth 1 point. Maximum score per contest is 5 points. Teams compete based on cumulative scores across multiple contests.''
           ''moems_scoring''
           ''scoring'']\<rparr>"

definition kb_calculator :: topic where
  "kb_calculator =
     \<lparr>answer = ''No, calculators are not allowed in MOEMS contests. Calculators are strictly prohibited. The competition emphasizes mental math and problem-solving skills without computational aids.'',
      sources = [''moems_rules''],
      retrieved_docs =
        [MockDocument_init
           ''Calculators are strictly prohibited in MOEMS contests. The competition emphasizes mental math and problem-solving skills without computational aids.''
           ''moems_rules''
           ''equipment'']\<rparr>"

definition kb_example :: topic where
  "kb_example =
     \<lparr>answer = ''Here's a sample MOEMS algebra problem: If 3x + 7 = 22, what is the value of x? Solution: x = 5. To solve, subtract 7 from both sides to get 3x = 15, then divide by 3 to get x = 5. This type of problem tests students' ability to isolate variables and perform basic algebraic operations.'',
      sources = [''moems_examples''],
      retrieved_docs =
        [MockDocument_init
           ''Sample Problem: If 3x + 7 = 22, what is x? Solution: Subtract 7 from both sides: 3x = 15, then divide by 3 to get x = 5. Tests variable isolation and basic algebra.''
           ''moems_examples''
           ''problems'']\<rparr>"

definition kb_strategies :: topic where
  "kb_strategies =
     \<lparr>answer = ''Given the 30-minute time limit for 5 problems, students have an average of 6 minutes per problem. Recommended strategy: (1) Quickly read all 5 problems first (2 minutes), (2) Start with problems that seem easiest (10 minutes for 2-3 problems), (3) Work on medium difficulty problems next (10 minutes), (4) Attempt challenging problems last (8 minutes). Time management is crucial for success in MOEMS competitions.'',
      sources = [''moems_strategies''],
      retrieved_docs =
        [MockDocument_init
           ''Time management strategy: Average 6 minutes per problem. (1) Read all problems first (2 min), (2) Start with easiest (10 min), (3) Work on medium difficulty (10 min), (4) Attempt hardest last (8 min).''
           ''moems_strategies''
           ''strategy'']\<rparr>"

definition kb_time :: topic where
  "kb_time =
     \<lparr>answer = ''Students have 30 minutes total to complete all 5 problems in a MOEMS contest. This works out to an average of 6 minutes per problem, though students are free to allocate their time as they see fit across the problems.'',
      sources = [''moems_structure''],
      retrieved_docs =
        [MockDocument_init
           ''30 minutes total for all 5 problems. Average of 6 minutes per problem, though time can be allocated as needed.''
           ''moems_structure''
           ''format'']\<rparr>"

definition kb_3rd_grader :: topic where
  "kb_3rd_grader =
     \<lparr>answer = ''MOEMS is officially designed for grades 4-8. While the standard eligibility is grades 4-8, exceptional cases such as an advanced 3rd grader may be handled on a case-by-case basis by contacting MOEMS organizers directly. The competition content is generally geared toward the cognitive development of students in the 4-8 grade range.'',
      sources = [''moems_eligibility'', ''moems_eligibility_exceptions''],
      retrieved_docs =
        [MockDocument_init
           ''MOEMS is designed for grades 4-8.''
           ''moems_eligibility''
           ''participation'',
         MockDocument_init
           ''Standard eligibility is grades 4-8. Exceptional cases such as advanced 3rd graders may be handled case-by-case by contacting organizers. Content is geared toward 4-8 grade cognitive development.''
           ''moems_eligibility_exceptions''
           ''participation'']\<rparr>"

definition KNOWLEDGE_BASE :: "string \<rightharpoonup> topic" where
  "KNOWLEDGE_BASE =
     map_of
       [(''what is moems'', kb_what_is_moems),
        (''structure'', kb_structure),
        (''participate'', kb_participate),
        (''scored'', kb_scored),
        (''calculator'', kb_calculator),
        (''example'', kb_example),
        (''strategies'', kb_strategies),
        (''time'', kb_time),
        (''3rd grader'', kb_3rd_grader)]"

section \<open>The agent (src/agent.py)\<close>

text \<open>
  The object state of \<^verbatim>\<open>MOEMSAgent\<close>: the knowledge base it was given and the tracing
  client, which is \<open>None\<close> when no API key is configured. The methods are modelled with
  explicit state passing: each takes \<open>self\<close> and returns its result together with the
  object state after the call. A raised exception is the \<open>Inl\<close> result.

  The methods \<^verbatim>\<open>_find_best_match\<close>, \<^verbatim>\<open>_retrieve\<close> and \<^verbatim>\<open>_generate\<close> are named
  without the leading underscore.

  The decorator \<^verbatim>\<open>@traceable\<close> reports spans to the external tracing service and returns
  what the decorated function returns; \<^verbatim>\<open>time.sleep\<close> only delays. Neither is part
  of the model.
\<close>

record MOEMSAgent =
  knowledge_base :: "string \<rightharpoonup> topic"
  client :: "string option"

definition MOEMSAgent_init :: "string option \<Rightarrow> MOEMSAgent" where
  "MOEMSAgent_init LANGCHAIN_API_KEY =
     \<lparr>knowledge_base = KNOWLEDGE_BASE,
      client = (case LANGCHAIN_API_KEY of
                  None \<Rightarrow> None
                | Some k \<Rightarrow> if k \<noteq> [] then Some k else None)\<rparr>"

definition default_response :: topic where
  "default_response =
     \<lparr>answer = ''Based on the available MOEMS documentation, I can tell you that MOEMS is a mathematics competition for grades 4-8 students. Could you be more specific about what aspect you'd like to know? Topics include: structure, eligibility, scoring, rules, strategies, and examples.'',
      sources = [''moems_general''],
      retrieved_docs =
        [MockDocument_init
           ''MOEMS general information. Competition for grades 4-8 students.''
           ''moems_general''
           ''general'']\<rparr>"

definition find_best_match :: "MOEMSAgent \<Rightarrow> string \<Rightarrow> (error + topic) \<times> MOEMSAgent" where
  "find_best_match self question =
     (let question_lower = lower question
      in if str_in ''what is moems'' question_lower \<or> str_in ''what's moems'' question_lower
         then (getitem (knowledge_base self) ''what is moems'', self)
         else if str_in ''structure'' question_lower \<or> str_in ''format'' question_lower
         then (getitem (knowledge_base self) ''structure'', self)
         else if str_in ''participate'' question_lower \<or> str_in ''who can'' question_lower
                 \<or> str_in ''eligib'' question_lower
         then (getitem (knowledge_base self) ''participate'', self)
         else if str_in ''scor'' question_lower \<or> str_in ''point'' question_lower
         then (getitem (knowledge_base self) ''scored'', self)
         else if str_in ''calculator'' question_lower
         then (getitem (knowledge_base self) ''calculator'', self)
         else if str_in ''example'' question_lower \<or> str_in ''sample problem'' question_lower
         then (getitem (knowledge_base self) ''example'', self)
         else if str_in ''strateg'' question_lower \<or> str_in ''time management'' question_lower
         then (getitem (knowledge_base self) ''strategies'', self)
         else if str_in ''time'' question_lower \<or> str_in ''how long'' question_lower
                 \<or> str_in ''minutes'' question_lower
         then (getitem (knowledge_base self) ''time'', self)
         else if str_in ''3rd grade'' question_lower \<or> str_in ''third grade'' question_lower
         then (getitem (knowledge_base self) ''3rd grader'', self)
         else (Inr default_response, self))"

text \<open>The dictionary returned by \<^verbatim>\<open>_retrieve\<close>.\<close>

record retrieval =
  r_sources :: "string list"
  r_retrieved_docs :: "MockDocument list"

definition retrieve :: "MOEMSAgent \<Rightarrow> string \<Rightarrow> (error + retrieval) \<times> MOEMSAgent" where
  "retrieve self question =
     (case find_best_match self question of
        (Inl e, self') \<Rightarrow> (Inl e, self')
      | (Inr result, self') \<Rightarrow>
          (Inr \<lparr>r_sources = sources result, r_retrieved_docs = retrieved_docs result\<rparr>, self'))"

text \<open>\<^verbatim>\<open>_generate\<close> receives the retrieved documents and does not read them: it matches
  the question again.\<close>

definition generate ::
  "MOEMSAgent \<Rightarrow> string \<Rightarrow> MockDocument list \<Rightarrow> (error + string) \<times> MOEMSAgent" where
  "generate self question docs =
     (case find_best_match self question of
        (Inl e, self') \<Rightarrow> (Inl e, self')
      | (Inr result, self') \<Rightarrow> (Inr (answer result), self'))"

text \<open>The dictionary returned by \<^verbatim>\<open>query\<close>.\<close>

record envelope =
  q_question :: string
  q_answer :: string
  q_sources :: "string list"
  num_docs_retrieved :: nat
  retrieved_contexts :: "string list"

definition query :: "MOEMSAgent \<Rightarrow> string \<Rightarrow> (error + envelope) \<times> MOEMSAgent" where
  "query self question =
     (case retrieve self question of
        (Inl e, self1) \<Rightarrow> (Inl e, self1)
      | (Inr retrieval_result, self1) \<Rightarrow>
          (case generate self1 question (r_retrieved_docs retrieval_result) of
             (Inl e, self2) \<Rightarrow> (Inl e, self2)
           | (Inr answer', self2) \<Rightarrow>
               (Inr \<lparr>q_question = question,
                     q_answer = answer',
                     q_sources = r_sources retrieval_result,
                     num_docs_retrieved = length (r_retrieved_docs retrieval_result),
                     retrieved_contexts = map page_content (r_retrieved_docs retrieval_result)\<rparr>,
                self2)))"

section \<open>The evaluators (src/evaluation.py)\<close>

text \<open>
  The evaluators read two objects of the evaluation framework. Of \<^verbatim>\<open>run\<close> they read the
  dictionary \<^verbatim>\<open>run.outputs\<close> (keys \<^verbatim>\<open>answer\<close> and \<^verbatim>\<open>contexts\<close>), of
  \<^verbatim>\<open>example\<close> the dictionaries \<^verbatim>\<open>example.inputs\<close> (key \<^verbatim>\<open>question\<close>) and
  \<^verbatim>\<open>example.outputs\<close> (key \<^verbatim>\<open>reference\<close>). An absent key is \<open>None\<close>.
\<close>

record run =
  outputs_answer :: "string option"
  outputs_contexts :: "string list option"

record example =
  inputs_question :: "string option"
  outputs_reference :: "string option"

text \<open>
  The returned dictionary. Python's floats are modelled by exact rationals: every score
  is a literal or a quotient of two integers. The comment is kept as the values that the
  format string interpolates, not as the formatted text; \<open>None\<close> stands for \<^verbatim>\<open>N/A\<close>.
\<close>

datatype comment =
    Matched "nat option" "nat option"
  | No_contexts_retrieved
  | Average_relevancy nat rat

record evaluation =
  key :: string
  score :: rat
  comment :: comment

text \<open>The list \<^verbatim>\<open>key_terms\<close> that the evaluator builds from the lowercased reference,
  one conditional \<^verbatim>\<open>append\<close> after the other.\<close>

definition key_terms :: "string \<Rightarrow> string list" where
  "key_terms reference =
     (if str_in ''moems'' reference then [''moems''] else []) @
     (if str_in ''grade'' reference then [''grade''] else []) @
     (if str_in ''30'' reference \<or> str_in ''minutes'' reference then [''30''] else []) @
     (if str_in ''5'' reference \<or> str_in ''five'' reference
      then (if str_in ''problem'' reference then [''5''] else [])
      else []) @
     (if str_in ''calculator'' reference then [''calculator''] else []) @
     (if str_in ''prohibit'' reference \<or> str_in ''not allowed'' reference
      then [''prohibit''] else []) @
     (if str_in ''point'' reference then [''point''] else []) @
     (if str_in ''strateg'' reference \<or> str_in ''time management'' reference
      then [''strateg''] else [])"

text \<open>\<^verbatim>\<open>sum(1 for term in terms if term in text)\<close>.\<close>

definition matches :: "string list \<Rightarrow> string \<Rightarrow> nat" where
  "matches terms text = length (filter (\<lambda>term. str_in term text) terms)"

definition answer_correctness_evaluator :: "run \<Rightarrow> example \<Rightarrow> evaluation" where
  "answer_correctness_evaluator r ex =
     (let prediction = lower (dict_get (outputs_answer r) []);
          reference = lower (dict_get (outputs_reference ex) []);
          terms = key_terms reference
      in if terms = []
         then \<lparr>key = ''answer_correctness'', score = 7 / 10, comment = Matched None None\<rparr>
         else \<lparr>key = ''answer_correctness'',
               score = of_nat (matches terms prediction) / of_nat (length terms),
               comment = Matched (Some (matches terms prediction)) (Some (length terms))\<rparr>)"

text \<open>The list \<^verbatim>\<open>question_words\<close> of the lowercased question, and the body of the loop
  over the contexts: the relevance score appended for one context.\<close>

definition question_words :: "string \<Rightarrow> string list" where
  "question_words question =
     filter
       (\<lambda>w. length w > 3 \<and>
            w \<notin> set [''what'', ''when'', ''where'', ''who'', ''how'',
                       ''can'', ''does'', ''should'', ''the'', ''is'', ''are''])
       (split question)"

definition relevance :: "string \<Rightarrow> string \<Rightarrow> rat" where
  "relevance question ctx =
     (let ctx_lower = lower ctx;
          ws = question_words question
      in if ws \<noteq> []
         then of_nat (matches ws ctx_lower) / of_nat (length ws)
         else 1 / 2)"

definition context_relevancy_evaluator :: "run \<Rightarrow> example \<Rightarrow> error + evaluation" where
  "context_relevancy_evaluator r ex =
     (case inputs_question ex of
        None \<Rightarrow> Inl (KeyError ''question'')
      | Some q \<Rightarrow>
          (let question = lower q;
               contexts = dict_get (outputs_contexts r) []
           in if contexts = []
              then Inr \<lparr>key = ''context_relevancy'', score = 0, comment = No_contexts_retrieved\<rparr>
              else (let relevance_scores = map (relevance question) contexts;
                        avg_relevance = sum_list relevance_scores / of_nat (length relevance_scores)
                    in Inr \<lparr>key = ''context_relevancy'',
                            score = avg_relevance,
                            comment = Average_relevancy (length contexts) avg_relevance\<rparr>)))"

section \<open>Specification-side definitions\<close>

text \<open>
  The rule table of the specification's router section, in its order: the phrases of
  each rule and the key the rule selects. The keys are written as the code's dictionary
  has them (the specification spells the first \<open>what_is_moems\<close> and the last
  \<open>third_grader\<close>).
\<close>

definition rule_table :: "(string list \<times> string) list" where
  "rule_table =
     [([''what is moems'', ''what's moems''], ''what is moems''),
      ([''structure'', ''format''], ''structure''),
      ([''participate'', ''who can'', ''eligib''], ''participate''),
      ([''scor'', ''point''], ''scored''),
      ([''calculator''], ''calculator''),
      ([''example'', ''sample problem''], ''example''),
      ([''strateg'', ''time management''], ''strategies''),
      ([''time'', ''how long'', ''minutes''], ''time''),
      ([''3rd grade'', ''third grade''], ''3rd grader'')]"

fun any_in :: "string list \<Rightarrow> string \<Rightarrow> bool" where
  "any_in [] s = False"
| "any_in (p # ps) s = (str_in p s \<or> any_in ps s)"

text \<open>First match wins: the key of the first rule one of whose phrases occurs.\<close>

fun first_match :: "(string list \<times> string) list \<Rightarrow> string \<Rightarrow> string option" where
  "first_match [] s = None"
| "first_match ((phrases, k) # rules) s =
     (if any_in phrases s then Some k else first_match rules s)"

text \<open>No rule fires on a lowercased question: none of the phrases of the table occurs.\<close>

definition no_rule_fires :: "string \<Rightarrow> bool" where
  "no_rule_fires question_lower = (first_match rule_table question_lower = None)"

text \<open>
  The single-match pipeline of the specification's design notes: the router is asked
  once and its one result is threaded through both phases.
\<close>

definition query_single_match ::
  "MOEMSAgent \<Rightarrow> string \<Rightarrow> (error + envelope) \<times> MOEMSAgent" where
  "query_single_match self question =
     (case find_best_match self question of
        (Inl e, self') \<Rightarrow> (Inl e, self')
      | (Inr result, self') \<Rightarrow>
          (Inr \<lparr>q_question = question,
                q_answer = answer result,
                q_sources = sources result,
                num_docs_retrieved = length (retrieved_docs result),
                retrieved_contexts = map page_content (retrieved_docs result)\<rparr>,
           self'))"

text \<open>The ten records the router can return: the nine of the knowledge base and the
  default response.\<close>

definition all_records :: "topic list" where
  "all_records =
     [kb_what_is_moems, kb_structure, kb_participate, kb_scored, kb_calculator,
      kb_example, kb_strategies, kb_time, kb_3rd_grader, default_response]"

section \<open>Facts about strings\<close>

lemma str_in_iff: "str_in p s \<longleftrightarrow> (\<exists>a b. s = a @ p @ b)"
proof (induction s)
  case Nil
  then show ?case by simp
next
  case (Cons c cs)
  show ?case
  proof
    assume "str_in p (c # cs)"
    then consider "prefix p (c # cs)" | "str_in p cs" by auto
    then show "\<exists>a b. c # cs = a @ p @ b"
    proof cases
      case 1
      then obtain b where "c # cs = p @ b" by (auto simp: prefix_def)
      then have "c # cs = [] @ p @ b" by simp
      then show ?thesis by blast
    next
      case 2
      with Cons.IH obtain a b where "cs = a @ p @ b" by blast
      then have "c # cs = (c # a) @ p @ b" by simp
      then show ?thesis by blast
    qed
  next
    assume "\<exists>a b. c # cs = a @ p @ b"
    then obtain a b where ab: "c # cs = a @ p @ b" by blast
    show "str_in p (c # cs)"
    proof (cases a)
      case Nil
      with ab have "prefix p (c # cs)" by (simp add: prefix_def)
      then show ?thesis by simp
    next
      case (Cons x xs)
      with ab have "cs = xs @ p @ b" by simp
      with Cons.IH have "str_in p cs" by blast
      then show ?thesis by simp
    qed
  qed
qed

lemmas lower_simps = lower_def char_lower_def is_upper_def

lemma lower_letters:
  "lower ''ABCDEFGHIJKLMNOPQRSTUVWXYZ'' = ''abcdefghijklmnopqrstuvwxyz''"
  by (simp add: lower_simps)

lemma lower_unchanged:
  "lower ''abcxyz 0123456789 ?'-.,:()+=_@[`{'' = ''abcxyz 0123456789 ?'-.,:()+=_@[`{''"
  by (simp add: lower_simps)

lemma split_example:
  "split ''  What is   MOEMS? '' = [''What'', ''is'', ''MOEMS?'']"
  by (simp add: split_def isspace_def)

text \<open>Every token that \<open>split\<close> returns is non-empty and free of whitespace.\<close>

lemma split_from_tokens:
  assumes "\<forall>c \<in> set cur. \<not> isspace c"
  shows "\<forall>w \<in> set (split_from cur s). w \<noteq> [] \<and> (\<forall>c \<in> set w. \<not> isspace c)"
  using assms
proof (induction s arbitrary: cur)
  case Nil
  then show ?case by simp
next
  case (Cons a s)
  show ?case
  proof (cases "isspace a")
    case True
    with Cons.prems Cons.IH [of "[]"] show ?thesis by simp
  next
    case False
    with Cons.prems have "\<forall>c \<in> set (cur @ [a]). \<not> isspace c" by simp
    from Cons.IH [OF this] False show ?thesis by simp
  qed
qed

lemma split_tokens: "\<forall>w \<in> set (split s). w \<noteq> [] \<and> (\<forall>c \<in> set w. \<not> isspace c)"
  unfolding split_def by (rule split_from_tokens) simp

section \<open>Facts about the router and the pipeline\<close>

lemma kb_lookup:
  "getitem KNOWLEDGE_BASE ''what is moems'' = Inr kb_what_is_moems"
  "getitem KNOWLEDGE_BASE ''structure'' = Inr kb_structure"
  "getitem KNOWLEDGE_BASE ''participate'' = Inr kb_participate"
  "getitem KNOWLEDGE_BASE ''scored'' = Inr kb_scored"
  "getitem KNOWLEDGE_BASE ''calculator'' = Inr kb_calculator"
  "getitem KNOWLEDGE_BASE ''example'' = Inr kb_example"
  "getitem KNOWLEDGE_BASE ''strategies'' = Inr kb_strategies"
  "getitem KNOWLEDGE_BASE ''time'' = Inr kb_time"
  "getitem KNOWLEDGE_BASE ''3rd grader'' = Inr kb_3rd_grader"
  by (simp_all add: KNOWLEDGE_BASE_def getitem_def)

lemma knowledge_base_init: "knowledge_base (MOEMSAgent_init k) = KNOWLEDGE_BASE"
  by (simp add: MOEMSAgent_init_def)

text \<open>The \<^verbatim>\<open>if\<close>/\<^verbatim>\<open>elif\<close> chain is the first match over the rule table.\<close>

lemma find_best_match_table:
  "find_best_match self q =
     ((case first_match rule_table (lower q) of
         None \<Rightarrow> Inr default_response
       | Some k \<Rightarrow> getitem (knowledge_base self) k), self)"
  by (simp add: find_best_match_def rule_table_def Let_def)

lemma first_match_keys:
  "first_match rule_table s = None \<or>
   first_match rule_table s \<in> Some ` {''what is moems'', ''structure'', ''participate'', ''scored'',
     ''calculator'', ''example'', ''strategies'', ''time'', ''3rd grader''}"
  by (simp add: rule_table_def)

lemma find_best_match_init:
  "\<exists>r. find_best_match (MOEMSAgent_init k) q = (Inr r, MOEMSAgent_init k) \<and> r \<in> set all_records"
  using first_match_keys [of "lower q"]
  by (auto simp: find_best_match_table knowledge_base_init kb_lookup all_records_def)

lemma find_best_match_self: "snd (find_best_match self q) = self"
  by (simp add: find_best_match_table)

lemma query_of_match:
  assumes "find_best_match self q = (Inr r, self)"
  shows "query self q =
     (Inr \<lparr>q_question = q, q_answer = answer r, q_sources = sources r,
           num_docs_retrieved = length (retrieved_docs r),
           retrieved_contexts = map page_content (retrieved_docs r)\<rparr>, self)"
  using assms by (simp add: query_def retrieve_def generate_def)

lemma query_self: "snd (query self q) = self"
proof (cases "fst (find_best_match self q)")
  case (Inl e)
  then have "find_best_match self q = (Inl e, self)"
    using find_best_match_self [of self q] by (metis prod.collapse)
  then show ?thesis by (simp add: query_def retrieve_def)
next
  case (Inr r)
  then have "find_best_match self q = (Inr r, self)"
    using find_best_match_self [of self q] by (metis prod.collapse)
  then show ?thesis by (simp add: query_of_match)
qed

lemma query_single_match_eq: "query self q = query_single_match self q"
proof (cases "fst (find_best_match self q)")
  case (Inl e)
  then have "find_best_match self q = (Inl e, self)"
    using find_best_match_self [of self q] by (metis prod.collapse)
  then show ?thesis by (simp add: query_def retrieve_def query_single_match_def)
next
  case (Inr r)
  then have "find_best_match self q = (Inr r, self)"
    using find_best_match_self [of self q] by (metis prod.collapse)
  then show ?thesis by (simp add: query_of_match query_single_match_def)
qed

lemmas record_defs =
  kb_what_is_moems_def kb_structure_def kb_participate_def kb_scored_def kb_calculator_def
  kb_example_def kb_strategies_def kb_time_def kb_3rd_grader_def default_response_def

lemma records_nonempty:
  "r \<in> set all_records \<Longrightarrow> answer r \<noteq> [] \<and> sources r \<noteq> [] \<and> retrieved_docs r \<noteq> []"
  by (auto simp: all_records_def record_defs)

lemma calculator_in_answers:
  "\<not> str_in ''calculator'' (lower (answer kb_what_is_moems))"
  "str_in ''calculator'' (lower (answer kb_structure))"
  "\<not> str_in ''calculator'' (lower (answer kb_participate))"
  "\<not> str_in ''calculator'' (lower (answer kb_scored))"
  "str_in ''calculator'' (lower (answer kb_calculator))"
  by (simp_all add: record_defs lower_simps)

text \<open>The records that the router selects for the questions of the test suite.\<close>

lemma test_suite_matches:
  "find_best_match (MOEMSAgent_init k) ''What is MOEMS?'' = (Inr kb_what_is_moems, MOEMSAgent_init k)"
  "find_best_match (MOEMSAgent_init k) ''What is the structure of a MOEMS contest?''
     = (Inr kb_structure, MOEMSAgent_init k)"
  "find_best_match (MOEMSAgent_init k) ''Are calculators allowed in MOEMS?''
     = (Inr kb_calculator, MOEMSAgent_init k)"
  "find_best_match (MOEMSAgent_init k) ''How is MOEMS scored?'' = (Inr kb_scored, MOEMSAgent_init k)"
  "find_best_match (MOEMSAgent_init k) ''Who can participate in MOEMS?''
     = (Inr kb_participate, MOEMSAgent_init k)"
  "find_best_match (MOEMSAgent_init k) ''Can a 3rd grader participate?''
     = (Inr kb_participate, MOEMSAgent_init k)"
  "find_best_match (MOEMSAgent_init k) ''What is the weather today?''
     = (Inr default_response, MOEMSAgent_init k)"
  by (simp_all add: find_best_match_table rule_table_def knowledge_base_init kb_lookup lower_simps)

section \<open>Facts about the evaluators\<close>

lemma split_from_concat: "concat (split_from cur s) = cur @ filter (\<lambda>c. \<not> isspace c) s"
  by (induction s arbitrary: cur) simp_all





lemma sum_list_map_zero:
  fixes f :: "'a \<Rightarrow> rat"
  shows "\<forall>x \<in> set xs. f x = 0 \<Longrightarrow> sum_list (map f xs) = 0"
  by (induction xs) simp_all


lemma question_words_what_is_moems:
  "question_words (lower ''What is MOEMS?'') = [''moems?'']"
  by (simp add: question_words_def split_def isspace_def lower_simps)


section \<open>The claims\<close>

subsection \<open>C1: questions that mention a calculator\<close>

text \<open>
  C1 (as amended). For every question whose lowercase form contains \<open>calculator\<close>,
  \<open>query\<close> returns an envelope, and its answer contains \<open>calculator\<close>
  (case-insensitively) exactly when the router's first matching rule is rule 2 or rule 5:
  no phrase of rule 1 occurs in the question and either a phrase of rule 2 occurs or no
  phrase of rules 3 and 4 occurs. The rules 1, 3 and 4 come before the calculator rule
  and their answers do not mention calculators.
\<close>

theorem query_calculator_answer:
  assumes "str_in ''calculator'' (lower q)"
  shows "\<exists>e. query (MOEMSAgent_init k) q = (Inr e, MOEMSAgent_init k) \<and>
           (str_in ''calculator'' (lower (q_answer e)) \<longleftrightarrow>
              \<not> any_in [''what is moems'', ''what's moems''] (lower q) \<and>
              (any_in [''structure'', ''format''] (lower q) \<or>
               \<not> any_in [''participate'', ''who can'', ''eligib'', ''scor'', ''point''] (lower q)))"
proof -
  let ?A = "MOEMSAgent_init k"
  have fm: "find_best_match ?A q =
      (Inr (if any_in [''what is moems'', ''what's moems''] (lower q) then kb_what_is_moems
            else if any_in [''structure'', ''format''] (lower q) then kb_structure
            else if any_in [''participate'', ''who can'', ''eligib''] (lower q) then kb_participate
            else if any_in [''scor'', ''point''] (lower q) then kb_scored
            else kb_calculator), ?A)"
    using assms
    by (simp add: find_best_match_table rule_table_def knowledge_base_init kb_lookup)
  show ?thesis
    unfolding query_of_match [OF fm]
    by (auto simp: calculator_in_answers)
qed

text \<open>The question of the test suite's calculator test satisfies the hypothesis and gets
  an answer that mentions calculators.\<close>

theorem query_calculator_answer_witness:
  "str_in ''calculator'' (lower ''Are calculators allowed in MOEMS?'') \<and>
   (\<exists>e. query (MOEMSAgent_init None) ''Are calculators allowed in MOEMS?''
          = (Inr e, MOEMSAgent_init None) \<and>
        str_in ''calculator'' (lower (q_answer e)))"
proof -
  have h: "str_in ''calculator'' (lower ''Are calculators allowed in MOEMS?'')"
    by (simp add: lower_simps)
  show ?thesis
    using h query_calculator_answer [OF h, of None]
    by (simp add: lower_simps)
qed

text \<open>
  C1 as stated fails: this question contains \<open>calculator\<close>, rule 1 fires on it first,
  and the answer of the record \<open>what is moems\<close> does not contain \<open>calculator\<close>.
\<close>

theorem query_calculator_counterexample:
  "str_in ''calculator'' (lower ''What is MOEMS calculator policy?'') \<and>
   fst (query (MOEMSAgent_init None) ''What is MOEMS calculator policy?'') =
     Inr \<lparr>q_question = ''What is MOEMS calculator policy?'',
          q_answer = answer kb_what_is_moems,
          q_sources = sources kb_what_is_moems,
          num_docs_retrieved = 2,
          retrieved_contexts = map page_content (retrieved_docs kb_what_is_moems)\<rparr> \<and>
   \<not> str_in ''calculator'' (lower (answer kb_what_is_moems))"
proof -
  have "find_best_match (MOEMSAgent_init None) ''What is MOEMS calculator policy?''
          = (Inr kb_what_is_moems, MOEMSAgent_init None)"
    by (simp add: find_best_match_table rule_table_def knowledge_base_init kb_lookup lower_simps)
  then show ?thesis
    by (simp add: query_of_match calculator_in_answers)
      (simp add: kb_what_is_moems_def lower_simps)
qed

subsection \<open>C2: the router and the pipeline never raise\<close>

text \<open>
  C2. For every question string, the empty string included, \<open>_find_best_match\<close> and
  \<open>query\<close> of a freshly constructed agent return without raising. The match is one of
  the ten topic records, the default response when no rule fires; the envelope is
  complete: it echoes the question, its answer and its sources are non-empty, and it
  counts at least one document, as many as it has contexts.
\<close>

theorem find_best_match_query_total:
  "\<exists>r e. find_best_match (MOEMSAgent_init k) q = (Inr r, MOEMSAgent_init k) \<and>
         r \<in> set all_records \<and>
         (no_rule_fires (lower q) \<longrightarrow> r = default_response) \<and>
         query (MOEMSAgent_init k) q = (Inr e, MOEMSAgent_init k) \<and>
         q_question e = q \<and> q_answer e \<noteq> [] \<and> q_sources e \<noteq> [] \<and>
         0 < num_docs_retrieved e \<and>
         num_docs_retrieved e = length (retrieved_contexts e)"
proof -
  obtain r where fm: "find_best_match (MOEMSAgent_init k) q = (Inr r, MOEMSAgent_init k)"
    and r: "r \<in> set all_records"
    using find_best_match_init by blast
  have "no_rule_fires (lower q) \<longrightarrow> r = default_response"
    using fm by (auto simp: find_best_match_table no_rule_fires_def)
  moreover note records_nonempty [OF r]
  ultimately show ?thesis
    using fm r by (simp add: query_of_match)
qed

text \<open>The empty question: no rule fires, the match is the default response.\<close>

theorem find_best_match_query_total_witness:
  "no_rule_fires (lower []) \<and>
   find_best_match (MOEMSAgent_init None) [] = (Inr default_response, MOEMSAgent_init None) \<and>
   (\<exists>e. query (MOEMSAgent_init None) [] = (Inr e, MOEMSAgent_init None) \<and>
        q_question e = [] \<and> q_answer e = answer default_response)"
proof -
  have h: "no_rule_fires (lower [])"
    by (simp add: no_rule_fires_def rule_table_def lower_def)
  from find_best_match_query_total [of None "[]"] h
  obtain e where "find_best_match (MOEMSAgent_init None) []
        = (Inr default_response, MOEMSAgent_init None)"
    and "query (MOEMSAgent_init None) [] = (Inr e, MOEMSAgent_init None)"
    and "q_question e = []"
    by auto
  then show ?thesis using h by (auto simp: query_of_match)
qed

subsection \<open>C3: the answer and the sources come from the same record\<close>

text \<open>
  C3. For every question, the envelope of \<open>query\<close> carries the answer and the sources (and
  the contexts) of the one record that the router selects for the question: the match that
  the generate phase derives again agrees with the match of the retrieve phase. On every
  agent state \<open>query\<close> returns what the single-match pipeline returns.
\<close>

theorem query_agrees_with_match:
  "(\<exists>r e. find_best_match (MOEMSAgent_init k) q = (Inr r, MOEMSAgent_init k) \<and>
          query (MOEMSAgent_init k) q = (Inr e, MOEMSAgent_init k) \<and>
          q_answer e = answer r \<and> q_sources e = sources r \<and>
          retrieved_contexts e = map page_content (retrieved_docs r)) \<and>
   query self q = query_single_match self q"
proof -
  obtain r where fm: "find_best_match (MOEMSAgent_init k) q = (Inr r, MOEMSAgent_init k)"
    using find_best_match_init by blast
  have "\<exists>r e. find_best_match (MOEMSAgent_init k) q = (Inr r, MOEMSAgent_init k) \<and>
          query (MOEMSAgent_init k) q = (Inr e, MOEMSAgent_init k) \<and>
          q_answer e = answer r \<and> q_sources e = sources r \<and>
          retrieved_contexts e = map page_content (retrieved_docs r)"
    using fm by (simp add: query_of_match)
  moreover have "query self q = query_single_match self q"
    by (rule query_single_match_eq)
  ultimately show ?thesis by blast
qed

subsection \<open>C4: rule order, first match wins\<close>

text \<open>
  C4. On every agent state the router returns the record of the first rule of the rule
  table, in the table's order, one of whose phrases occurs in the lowercased question, and
  the default response when there is none. The question \<open>What is the scoring structure?\<close>
  contains \<open>structure\<close> (rule 2) and \<open>scor\<close> (rule 4); the router returns the record
  of key \<open>structure\<close>, which is not the record of key \<open>scored\<close>.
\<close>

theorem find_best_match_first_match_wins:
  "find_best_match self q =
     ((case first_match rule_table (lower q) of
         None \<Rightarrow> Inr default_response
       | Some k \<Rightarrow> getitem (knowledge_base self) k), self) \<and>
   str_in ''structure'' (lower ''What is the scoring structure?'') \<and>
   str_in ''scor'' (lower ''What is the scoring structure?'') \<and>
   find_best_match (MOEMSAgent_init key') ''What is the scoring structure?''
     = (Inr kb_structure, MOEMSAgent_init key') \<and>
   kb_structure \<noteq> kb_scored"
proof -
  have "find_best_match (MOEMSAgent_init key') ''What is the scoring structure?''
     = (Inr kb_structure, MOEMSAgent_init key')"
    by (simp add: find_best_match_table rule_table_def knowledge_base_init kb_lookup lower_simps)
  moreover have "kb_structure \<noteq> kb_scored"
    by (simp add: kb_structure_def kb_scored_def)
  moreover have "str_in ''structure'' (lower ''What is the scoring structure?'')"
    and "str_in ''scor'' (lower ''What is the scoring structure?'')"
    by (simp_all add: lower_simps)
  ultimately show ?thesis
    using find_best_match_table [of self q] by simp
qed

subsection \<open>C5: query is a function of the question alone\<close>

text \<open>
  C5. A call of \<open>query\<close> leaves the agent's state as it found it, so a second call with
  the same question, made on the state the first call left, returns the same result (the
  same answer, sources and contexts). The result does not depend on the tracing client
  either: agents constructed with different API keys answer alike.
\<close>

theorem query_deterministic:
  "snd (query self q) = self \<and>
   query (snd (query self q)) q = query self q \<and>
   fst (query (MOEMSAgent_init k) q) = fst (query (MOEMSAgent_init k') q)"
proof -
  obtain r where "find_best_match (MOEMSAgent_init k) q = (Inr r, MOEMSAgent_init k)"
    using find_best_match_init by blast
  moreover from this have "find_best_match (MOEMSAgent_init k') q = (Inr r, MOEMSAgent_init k')"
    by (simp add: find_best_match_table knowledge_base_init split: option.splits)
  ultimately have "fst (query (MOEMSAgent_init k) q) = fst (query (MOEMSAgent_init k') q)"
    by (simp add: query_of_match)
  then show ?thesis by (simp add: query_self)
qed

subsection \<open>C6: the empty answer against the full reference\<close>

text \<open>
  C6. For the empty produced answer and the reference
  \<open>MOEMS is for grades 4-8, 5 problems, 30 minutes, calculators prohibited\<close> the evaluator
  extracts six key terms (at least five), none of them occurs in the answer, and the
  score is 0.
\<close>

theorem answer_correctness_empty_answer:
  "key_terms (lower ''MOEMS is for grades 4-8, 5 problems, 30 minutes, calculators prohibited'')
     = [''moems'', ''grade'', ''30'', ''5'', ''calculator'', ''prohibit''] \<and>
   5 \<le> length (key_terms
     (lower ''MOEMS is for grades 4-8, 5 problems, 30 minutes, calculators prohibited'')) \<and>
   matches (key_terms
     (lower ''MOEMS is for grades 4-8, 5 problems, 30 minutes, calculators prohibited''))
     (lower []) = 0 \<and>
   answer_correctness_evaluator
     \<lparr>outputs_answer = Some [], outputs_contexts = cs\<rparr>
     \<lparr>inputs_question = qn,
      outputs_reference =
        Some ''MOEMS is for grades 4-8, 5 problems, 30 minutes, calculators prohibited''\<rparr>
     = \<lparr>key = ''answer_correctness'', score = 0, comment = Matched (Some 0) (Some 6)\<rparr>"
proof -
  have kt: "key_terms
      (lower ''MOEMS is for grades 4-8, 5 problems, 30 minutes, calculators prohibited'')
     = [''moems'', ''grade'', ''30'', ''5'', ''calculator'', ''prohibit'']"
    by (simp add: key_terms_def lower_simps)
  have m: "matches [''moems'', ''grade'', ''30'', ''5'', ''calculator'', ''prohibit''] (lower []) = 0"
    by (simp add: matches_def lower_def)
  show ?thesis
    by (simp add: answer_correctness_evaluator_def Let_def dict_get_def kt m)
qed

subsection \<open>C7: the scores lie between 0 and 1\<close>


subsection \<open>C8: the fallback envelope\<close>

text \<open>
  C8. For every question on which none of the nine rules fires, \<open>query\<close> returns the fixed
  fallback envelope: the default answer, which contains \<open>grades 4-8\<close> and names the
  topics structure, eligibility, scoring, rules, strategies and examples, the one source
  identifier \<open>moems_general\<close>, and exactly one snippet.
\<close>

theorem query_fallback:
  assumes "no_rule_fires (lower q)"
  shows "\<exists>e. query (MOEMSAgent_init k) q = (Inr e, MOEMSAgent_init k) \<and>
           e = \<lparr>q_question = q,
                q_answer = answer default_response,
                q_sources = [''moems_general''],
                num_docs_retrieved = 1,
                retrieved_contexts =
                  [''MOEMS general information. Competition for grades 4-8 students.'']\<rparr> \<and>
           str_in ''grades 4-8'' (q_answer e) \<and>
           str_in ''structure'' (q_answer e) \<and>
           str_in ''eligibility'' (q_answer e) \<and>
           str_in ''scoring'' (q_answer e) \<and>
           str_in ''rules'' (q_answer e) \<and>
           str_in ''strategies'' (q_answer e) \<and>
           str_in ''examples'' (q_answer e)"
proof -
  have fm: "find_best_match (MOEMSAgent_init k) q = (Inr default_response, MOEMSAgent_init k)"
    using assms by (simp add: find_best_match_table no_rule_fires_def)
  have "str_in ''grades 4-8'' (answer default_response)"
    and "str_in ''structure'' (answer default_response)"
    and "str_in ''eligibility'' (answer default_response)"
    and "str_in ''scoring'' (answer default_response)"
    and "str_in ''rules'' (answer default_response)"
    and "str_in ''strategies'' (answer default_response)"
    and "str_in ''examples'' (answer default_response)"
    by (simp_all add: default_response_def)
  then show ?thesis
    unfolding query_of_match [OF fm]
    by (simp add: default_response_def MockDocument_init_def)
qed

text \<open>The unknown question of the test suite: no rule fires on it.\<close>

theorem query_fallback_witness:
  "no_rule_fires (lower ''What is the weather today?'') \<and>
   fst (query (MOEMSAgent_init None) ''What is the weather today?'') =
     Inr \<lparr>q_question = ''What is the weather today?'',
          q_answer = answer default_response,
          q_sources = [''moems_general''],
          num_docs_retrieved = 1,
          retrieved_contexts =
            [''MOEMS general information. Competition for grades 4-8 students.'']\<rparr>"
proof -
  have h: "no_rule_fires (lower ''What is the weather today?'')"
    by (simp add: no_rule_fires_def rule_table_def lower_simps)
  show ?thesis
    using h query_fallback [OF h, of None] by auto
qed

subsection \<open>C9: the marker for minutes is the key term 30\<close>



subsection \<open>C10: question tokens keep their punctuation\<close>

text \<open>
  C10. \<open>split\<close> drops whitespace only: the tokens of a string, put together, are its
  non-whitespace characters, so punctuation stays attached. The only token of the question
  \<open>What is MOEMS?\<close> that survives the filter is \<open>moems?\<close>. Every snippet whose
  lowercase form does not contain \<open>moems?\<close> has relevance 0, and a non-empty list of
  snippets that all contain \<open>moems\<close> but not \<open>moems?\<close> gets the overall score 0.
\<close>

theorem context_relevancy_keeps_punctuation:
  assumes "contexts \<noteq> []"
    and "\<forall>c \<in> set contexts. str_in ''moems'' (lower c) \<and> \<not> str_in ''moems?'' (lower c)"
  shows "concat (split s) = filter (\<lambda>c. \<not> isspace c) s \<and>
         question_words (lower ''What is MOEMS?'') = [''moems?''] \<and>
         (\<forall>c \<in> set contexts. relevance (lower ''What is MOEMS?'') c = 0) \<and>
         context_relevancy_evaluator
           \<lparr>outputs_answer = a, outputs_contexts = Some contexts\<rparr>
           \<lparr>inputs_question = Some ''What is MOEMS?'', outputs_reference = rf\<rparr>
           = Inr \<lparr>key = ''context_relevancy'', score = 0,
                  comment = Average_relevancy (length contexts) 0\<rparr>"
proof -
  have rel: "\<forall>c \<in> set contexts. relevance (lower ''What is MOEMS?'') c = 0"
    using assms(2)
    by (simp add: relevance_def Let_def question_words_what_is_moems matches_def)
  then have "sum_list (map (relevance (lower ''What is MOEMS?'')) contexts) = 0"
    by (rule sum_list_map_zero)
  then have "context_relevancy_evaluator
           \<lparr>outputs_answer = a, outputs_contexts = Some contexts\<rparr>
           \<lparr>inputs_question = Some ''What is MOEMS?'', outputs_reference = rf\<rparr>
           = Inr \<lparr>key = ''context_relevancy'', score = 0,
                  comment = Average_relevancy (length contexts) 0\<rparr>"
    using assms(1) by (simp add: context_relevancy_evaluator_def Let_def dict_get_def)
  moreover have "concat (split s) = filter (\<lambda>c. \<not> isspace c) s"
    by (simp add: split_def split_from_concat)
  ultimately show ?thesis
    using rel question_words_what_is_moems by blast
qed

text \<open>The two snippets that the pipeline retrieves for this very question: both contain
  \<open>moems\<close>, neither contains \<open>moems?\<close>, and the score is 0.\<close>

theorem context_relevancy_keeps_punctuation_witness:
  "map page_content (retrieved_docs kb_what_is_moems) =
     [''MOEMS stands for Mathematical Olympiads for Elementary and Middle Schools. It is a mathematics competition designed for students in grades 4-8.'',
      ''MOEMS provides an engaging way for students to develop problem-solving skills through challenging mathematical problems.''] \<and>
   str_in ''moems'' (lower ''MOEMS stands for Mathematical Olympiads for Elementary and Middle Schools. It is a mathematics competition designed for students in grades 4-8.'') \<and>
   \<not> str_in ''moems?'' (lower ''MOEMS stands for Mathematical Olympiads for Elementary and Middle Schools. It is a mathematics competition designed for students in grades 4-8.'') \<and>
   str_in ''moems'' (lower ''MOEMS provides an engaging way for students to develop problem-solving skills through challenging mathematical problems.'') \<and>
   \<not> str_in ''moems?'' (lower ''MOEMS provides an engaging way for students to develop problem-solving skills through challenging mathematical problems.'') \<and>
   context_relevancy_evaluator
     \<lparr>outputs_answer = None,
      outputs_contexts = Some (map page_content (retrieved_docs kb_what_is_moems))\<rparr>
     \<lparr>inputs_question = Some ''What is MOEMS?'', outputs_reference = None\<rparr>
     = Inr \<lparr>key = ''context_relevancy'', score = 0, comment = Average_relevancy 2 0\<rparr>"
proof -
  let ?s1 = "''MOEMS stands for Mathematical Olympiads for Elementary and Middle Schools. It is a mathematics competition designed for students in grades 4-8.''"
  let ?s2 = "''MOEMS provides an engaging way for students to develop problem-solving skills through challenging mathematical problems.''"
  have cs: "map page_content (retrieved_docs kb_what_is_moems) = [?s1, ?s2]"
    by (simp add: kb_what_is_moems_def MockDocument_init_def)
  have s1: "str_in ''moems'' (lower ?s1)" "\<not> str_in ''moems?'' (lower ?s1)"
    by (simp_all add: lower_simps)
  have s2: "str_in ''moems'' (lower ?s2)" "\<not> str_in ''moems?'' (lower ?s2)"
    by (simp_all add: lower_simps)
  have h1: "[?s1, ?s2] \<noteq> []"
    by simp
  have h2: "\<forall>c \<in> set [?s1, ?s2]. str_in ''moems'' (lower c) \<and> \<not> str_in ''moems?'' (lower c)"
    using s1 s2 by simp
  from context_relevancy_keeps_punctuation [OF h1 h2, of "[]" None None]
  have "context_relevancy_evaluator
     \<lparr>outputs_answer = None, outputs_contexts = Some [?s1, ?s2]\<rparr>
     \<lparr>inputs_question = Some ''What is MOEMS?'', outputs_reference = None\<rparr>
     = Inr \<lparr>key = ''context_relevancy'', score = 0, comment = Average_relevancy 2 0\<rparr>"
    by simp
  with cs s1 s2 show ?thesis by simp
qed

end
